theory Spec2Isabelle
  imports Main "HOL-Library.Word"
begin

unbundle bit_operations_syntax

section \<open>UC3 clock management (LUFA/Platform/UC3/ClockManagement.h)\<close>

text \<open>
  The header drives the power manager (\<open>AVR32_PM\<close>) and the flash controller
  (\<open>AVR32_FLASHC\<close>) of an AVR32 UC3 through memory-mapped registers. Each inline
  function of the header is embedded as a function on an explicit register state.
\<close>

subsection \<open>Machine integers and enumerations\<close>

type_synonym u8 = "8 word"
type_synonym u32 = "32 word"

text \<open>\<open>enum Extern_OSC_ClockTypes_t\<close>; the functions take the value as \<open>uint8_t\<close>.\<close>

definition EXOSC_MODE_CLOCK :: u8 where "EXOSC_MODE_CLOCK = 0"
definition EXOSC_MODE_900KHZ_MAX :: u8 where "EXOSC_MODE_900KHZ_MAX = 1"
definition EXOSC_MODE_3MHZ_MAX :: u8 where "EXOSC_MODE_3MHZ_MAX = 2"
definition EXOSC_MODE_8MHZ_MAX :: u8 where "EXOSC_MODE_8MHZ_MAX = 3"
definition EXOSC_MODE_8MHZ_OR_MORE :: u8 where "EXOSC_MODE_8MHZ_OR_MORE = 4"

text \<open>\<open>enum Extern_OSC_ClockStartup_t\<close>.\<close>

definition EXOSC_START_0CLK :: u8 where "EXOSC_START_0CLK = 0"
definition EXOSC_START_64CLK :: u8 where "EXOSC_START_64CLK = 1"
definition EXOSC_START_128CLK :: u8 where "EXOSC_START_128CLK = 2"
definition EXOSC_START_2048CLK :: u8 where "EXOSC_START_2048CLK = 3"
definition EXOSC_START_4096CLK :: u8 where "EXOSC_START_4096CLK = 4"
definition EXOSC_START_8192CLK :: u8 where "EXOSC_START_8192CLK = 5"
definition EXOSC_START_16384CLK :: u8 where "EXOSC_START_16384CLK = 6"

text \<open>\<open>enum System_ClockSource_t\<close>.\<close>

definition CLOCK_SRC_SLOW_CLK :: u8 where "CLOCK_SRC_SLOW_CLK = 0"
definition CLOCK_SRC_OSC0 :: u8 where "CLOCK_SRC_OSC0 = 1"
definition CLOCK_SRC_OSC1 :: u8 where "CLOCK_SRC_OSC1 = 2"
definition CLOCK_SRC_PLL0 :: u8 where "CLOCK_SRC_PLL0 = 3"
definition CLOCK_SRC_PLL1 :: u8 where "CLOCK_SRC_PLL1 = 4"

subsection \<open>The register state\<close>

text \<open>
  Modelled from the spec: the register block of the power manager and of the flash
  controller. Its declaration is in the device header \<open><avr32/io.h>\<close> of the
  toolchain, which ClockManagement.h includes and the repository does not contain. The
  spec's data model gives an oscillator channel a mode and a startup delay, a PLL
  channel (index 0 or 1) a source, a multiplier that is a derived integer, a divider
  and an enabled flag, a generic clock channel (index below some \<open>N\<close>) a source, a
  divider-enabled flag, a divider that is a derived integer and an enabled flag, and the
  CPU clock selector a source and a wait-state flag.

  The state below has one component for each register or register field that
  ClockManagement.h names, under the name the header uses. A field holds the value
  that is assigned to it: a flag assigned \<open>true\<close>/\<open>false\<close> is a \<open>bool\<close>, every other
  field is a 32-bit word (the width of a field inside its register is not modelled).
  \<open>AVR32_PM.mcctrl\<close> is the word view of the main clock control register that the
  oscillator routines use and \<open>AVR32_PM.MCCTRL.mcsel\<close> is the selector field that the
  CPU clock switch uses; how the device header overlays the two is not modelled, they
  are separate components.
\<close>

record oscctrl_t =
  startup :: u32
  mode :: u32

record pll_t =
  pllosc :: u32
  pllmul :: u32
  plldiv :: u32
  pllen :: bool

record gcctrl_t =
  pllsel :: u32
  oscsel :: u32
  diven :: bool
  gc_div :: u32
  cen :: bool

text \<open>
  \<open>PLL\<close> and \<open>GCCTRL\<close> are the channel arrays; their lengths are the array sizes.
  \<open>poscsr\<close> is the read-only status register that the hardware drives: \<open>poscsr m t\<close>
  is the value that the \<open>t\<close>-th volatile read returns, and \<open>poscsr_reads\<close> counts the
  reads made so far.
\<close>

record hw =
  OSCCTRL0 :: oscctrl_t
  OSCCTRL1 :: oscctrl_t
  mcctrl :: u32
  MCCTRL_mcsel :: u32
  PLL :: "pll_t list"
  GCCTRL :: "gcctrl_t list"
  poscsr :: "nat \<Rightarrow> u32"
  poscsr_reads :: nat
  FCR_fws :: bool

subsection \<open>Undefined behaviour and blocking\<close>

text \<open>
  What ISO C leaves undefined is a value of the model: an access outside a channel
  array, a division by zero, a shift of the \<open>int\<close> constant \<open>1\<close> that does not fit
  in \<open>int\<close>.
\<close>

datatype fault = OutOfBounds | DivisionByZero | ShiftOutOfRange

text \<open>
  The outcome of one of the two blocking routines: it returns a value in a state, or it
  polls the status register for ever in a state, or it runs into undefined behaviour.
\<close>

datatype 'a outcome = Returns 'a hw | Spins hw | Undefined fault

text \<open>
  \<open>1 << n\<close> where \<open>1\<close> is a 32-bit \<open>int\<close>: defined when \<open>2 ^ n\<close> is representable
  in \<open>int\<close>, that is for \<open>n < 31\<close>.
\<close>

definition shl1 :: "nat \<Rightarrow> fault + u32" where
  "shl1 n = (if n < 31 then Inr (push_bit n 1) else Inl ShiftOutOfRange)"

text \<open>
  \<open>while (!(AVR32_PM.poscsr & flag));\<close> starting with read number \<open>t\<close>: the number
  of the first read not made, or \<open>None\<close> when the flag never shows.
\<close>

partial_function (option) wait_poscsr :: "(nat \<Rightarrow> u32) \<Rightarrow> u32 \<Rightarrow> nat \<Rightarrow> nat option" where
  "wait_poscsr rd flag t =
     (if rd t AND flag = 0 then wait_poscsr rd flag (Suc t) else Some (Suc t))"

definition await :: "u32 \<Rightarrow> 'a \<Rightarrow> hw \<Rightarrow> 'a outcome" where
  "await flag r m =
     (case wait_poscsr (poscsr m) flag (poscsr_reads m) of
        None \<Rightarrow> Spins m
      | Some t \<Rightarrow> Returns r (m\<lparr>poscsr_reads := t\<rparr>))"

text \<open>Assignment to a field of \<open>AVR32_PM.PLL[Channel]\<close> and \<open>AVR32_PM.GCCTRL[Channel]\<close>,
  for an index inside the array.\<close>

definition PLL_set :: "u8 \<Rightarrow> (pll_t \<Rightarrow> pll_t) \<Rightarrow> hw \<Rightarrow> hw" where
  "PLL_set Channel f m = m\<lparr>PLL := (PLL m)[unat Channel := f (PLL m ! unat Channel)]\<rparr>"

definition GCCTRL_set :: "u8 \<Rightarrow> (gcctrl_t \<Rightarrow> gcctrl_t) \<Rightarrow> hw \<Rightarrow> hw" where
  "GCCTRL_set Channel f m =
     m\<lparr>GCCTRL := (GCCTRL m)[unat Channel := f (GCCTRL m ! unat Channel)]\<rparr>"

subsection \<open>The inline functions\<close>

text \<open>
  \<open>AVR32CLK_StartExternalOscillator\<close> is declared \<open>static inline void\<close>: its
  \<open>return false;\<close> and \<open>return true;\<close> hand nothing to the caller, so the embedding
  returns \<open>unit\<close>. The offsets \<open>AVR32_PM_MCCTRL_OSC0EN_OFFSET\<close> and
  \<open>AVR32_PM_POSCSR_OSC0RDY_OFFSET\<close> come from the absent device header and are
  parameters.
\<close>

definition AVR32CLK_StartExternalOscillator ::
  "nat \<Rightarrow> nat \<Rightarrow> u8 \<Rightarrow> u8 \<Rightarrow> u8 \<Rightarrow> hw \<Rightarrow> unit outcome" where
  "AVR32CLK_StartExternalOscillator OSC0EN_OFFSET OSC0RDY_OFFSET Channel Type Startup m =
     (case (if Channel = 0 then
              Some (m\<lparr>OSCCTRL0 := (OSCCTRL0 m)\<lparr>startup := ucast Startup, mode := ucast Type\<rparr>\<rparr>)
            else if Channel = 1 then
              Some (m\<lparr>OSCCTRL1 := (OSCCTRL1 m)\<lparr>startup := ucast Startup, mode := ucast Type\<rparr>\<rparr>)
            else None) of
        None \<Rightarrow> Returns () m
      | Some m1 \<Rightarrow>
          (case shl1 (OSC0EN_OFFSET + unat Channel) of
             Inl e \<Rightarrow> Undefined e
           | Inr en \<Rightarrow>
               (case shl1 (OSC0RDY_OFFSET + unat Channel) of
                  Inl e \<Rightarrow> Undefined e
                | Inr rdy \<Rightarrow> await rdy () (m1\<lparr>mcctrl := mcctrl m1 OR en\<rparr>))))"

definition AVR32CLK_StopExternalOscillator :: "nat \<Rightarrow> u8 \<Rightarrow> hw \<Rightarrow> fault + hw" where
  "AVR32CLK_StopExternalOscillator OSC0EN_OFFSET Channel m =
     (case shl1 (OSC0EN_OFFSET + unat Channel) of
        Inl e \<Rightarrow> Inl e
      | Inr en \<Rightarrow> Inr (m\<lparr>mcctrl := mcctrl m AND NOT en\<rparr>))"

text \<open>\<open>AVR32_PM_POSCSR_LOCK0_OFFSET\<close> is a parameter, as above.\<close>

definition AVR32CLK_StartPLL ::
  "nat \<Rightarrow> u8 \<Rightarrow> u8 \<Rightarrow> u32 \<Rightarrow> u32 \<Rightarrow> hw \<Rightarrow> bool outcome" where
  "AVR32CLK_StartPLL LOCK0_OFFSET Channel Source SourceFreq Frequency m =
     (case (if Source = CLOCK_SRC_OSC0 then Some (0 :: u32)
            else if Source = CLOCK_SRC_OSC1 then Some 1
            else None) of
        None \<Rightarrow> Returns False m
      | Some osc \<Rightarrow>
          if \<not> unat Channel < length (PLL m) then Undefined OutOfBounds
          else
            let m1 = PLL_set Channel (\<lambda>p. p\<lparr>pllosc := osc\<rparr>) m in
            if SourceFreq = 0 then Undefined DivisionByZero
            else
              let m2 = PLL_set Channel
                         (\<lambda>p. p\<lparr>pllmul := (if Frequency div SourceFreq \<noteq> 0
                                           then ((Frequency div SourceFreq) - 1) div 2
                                           else 0)\<rparr>) m1;
                  m3 = PLL_set Channel (\<lambda>p. p\<lparr>plldiv := 0\<rparr>) m2;
                  m4 = PLL_set Channel (\<lambda>p. p\<lparr>pllen := True\<rparr>) m3
              in (case shl1 (LOCK0_OFFSET + unat Channel) of
                    Inl e \<Rightarrow> Undefined e
                  | Inr lock \<Rightarrow> await lock True m4))"

definition AVR32CLK_StopPLL :: "u8 \<Rightarrow> hw \<Rightarrow> fault + hw" where
  "AVR32CLK_StopPLL Channel m =
     (if \<not> unat Channel < length (PLL m) then Inl OutOfBounds
      else Inr (PLL_set Channel (\<lambda>p. p\<lparr>pllen := False\<rparr>) m))"

definition AVR32CLK_StartGenericClock ::
  "u8 \<Rightarrow> u8 \<Rightarrow> u32 \<Rightarrow> u32 \<Rightarrow> hw \<Rightarrow> fault + bool \<times> hw" where
  "AVR32CLK_StartGenericClock Channel Source SourceFreq Frequency m =
     (case (if Source = CLOCK_SRC_OSC0 then Some (0 :: u32, 0 :: u32)
            else if Source = CLOCK_SRC_OSC1 then Some (0, 1)
            else if Source = CLOCK_SRC_PLL0 then Some (1, 0)
            else if Source = CLOCK_SRC_PLL1 then Some (1, 1)
            else None) of
        None \<Rightarrow> Inr (False, m)
      | Some (ps, os) \<Rightarrow>
          if \<not> unat Channel < length (GCCTRL m) then Inl OutOfBounds
          else
            let m1 = GCCTRL_set Channel (\<lambda>g. g\<lparr>pllsel := ps, oscsel := os\<rparr>) m in
            if SourceFreq < Frequency then Inr (False, m1)
            else
              let m2 = GCCTRL_set Channel (\<lambda>g. g\<lparr>diven := (SourceFreq > Frequency)\<rparr>) m1 in
              if Frequency = 0 then Inl DivisionByZero
              else
                let m3 = GCCTRL_set Channel
                           (\<lambda>g. g\<lparr>gc_div := ((SourceFreq div Frequency) - 1) div 2\<rparr>) m2;
                    m4 = GCCTRL_set Channel (\<lambda>g. g\<lparr>cen := True\<rparr>) m3
                in Inr (True, m4))"

definition AVR32CLK_StopGenericClock :: "u8 \<Rightarrow> hw \<Rightarrow> fault + hw" where
  "AVR32CLK_StopGenericClock Channel m =
     (if \<not> unat Channel < length (GCCTRL m) then Inl OutOfBounds
      else Inr (GCCTRL_set Channel (\<lambda>g. g\<lparr>cen := False\<rparr>) m))"

definition AVR32CLK_SetCPUClockSource :: "u8 \<Rightarrow> u32 \<Rightarrow> hw \<Rightarrow> bool \<times> hw" where
  "AVR32CLK_SetCPUClockSource Source SourceFreq m =
     (let m1 = m\<lparr>FCR_fws := (SourceFreq > 30000000)\<rparr> in
      if Source = CLOCK_SRC_SLOW_CLK then (True, m1\<lparr>MCCTRL_mcsel := 0\<rparr>)
      else if Source = CLOCK_SRC_OSC0 then (True, m1\<lparr>MCCTRL_mcsel := 1\<rparr>)
      else if Source = CLOCK_SRC_PLL0 then (True, m1\<lparr>MCCTRL_mcsel := 2\<rparr>)
      else (False, m1))"

subsection \<open>Example states\<close>

text \<open>
  A state with every register zero, two PLL channels and \<open>n\<close> generic clock channels,
  whose status register shows every flag from read number \<open>k\<close> on.
\<close>

definition hw_zero :: "nat \<Rightarrow> nat \<Rightarrow> hw" where
  "hw_zero n k =
     \<lparr>OSCCTRL0 = \<lparr>startup = 0, mode = 0\<rparr>,
      OSCCTRL1 = \<lparr>startup = 0, mode = 0\<rparr>,
      mcctrl = 0,
      MCCTRL_mcsel = 0,
      PLL = [\<lparr>pllosc = 0, pllmul = 0, plldiv = 0, pllen = False\<rparr>,
             \<lparr>pllosc = 0, pllmul = 0, plldiv = 0, pllen = False\<rparr>],
      GCCTRL = replicate n \<lparr>pllsel = 0, oscsel = 0, diven = False, gc_div = 0, cen = False\<rparr>,
      poscsr = (\<lambda>t. if t < k then 0 else - 1),
      poscsr_reads = 0,
      FCR_fws = False\<rparr>"

text \<open>The same state with the main clock control word set to \<open>v\<close>.\<close>

definition hw_mcctrl :: "u32 \<Rightarrow> hw" where
  "hw_mcctrl v = (hw_zero 1 0)\<lparr>mcctrl := v\<rparr>"

section \<open>Properties\<close>

subsection \<open>Auxiliary facts\<close>

lemmas clock_src_defs =
  CLOCK_SRC_SLOW_CLK_def CLOCK_SRC_OSC0_def CLOCK_SRC_OSC1_def
  CLOCK_SRC_PLL0_def CLOCK_SRC_PLL1_def

lemma await_cases:
  "await flag r m = Spins m \<or> (\<exists>t. await flag r m = Returns r (m\<lparr>poscsr_reads := t\<rparr>))"
  by (auto simp: await_def split: option.split)

text \<open>The polling loop ends as soon as some later read shows the flag.\<close>

lemma wait_poscsr_ready:
  "rd (t + k) AND flag \<noteq> 0 \<Longrightarrow> \<exists>t'. wait_poscsr rd flag t = Some t'"
proof (induction k arbitrary: t)
  case 0
  then show ?case by (subst wait_poscsr.simps) simp
next
  case (Suc k)
  from Suc.prems have "rd (Suc t + k) AND flag \<noteq> 0" by simp
  from Suc.IH [OF this] obtain t' where "wait_poscsr rd flag (Suc t) = Some t'" ..
  then show ?case by (subst wait_poscsr.simps) simp
qed

lemma word_div_nonzero_iff:
  fixes a b :: u32
  assumes "b \<noteq> 0"
  shows "a div b \<noteq> 0 \<longleftrightarrow> b \<le> a"
proof -
  from assms have "0 < unat b" by (simp add: unat_gt_0)
  have "a div b \<noteq> 0 \<longleftrightarrow> 0 < unat (a div b)" by (simp add: unat_gt_0)
  also have "\<dots> \<longleftrightarrow> 0 < unat a div unat b" by (simp add: unat_div)
  also have "\<dots> \<longleftrightarrow> unat b \<le> unat a"
    using \<open>0 < unat b\<close> by (simp add: div_greater_zero_iff)
  also have "\<dots> \<longleftrightarrow> b \<le> a" by (simp add: word_le_nat_alt)
  finally show ?thesis .
qed

lemma pllmul_value:
  fixes a b :: u32
  assumes "b \<noteq> 0" and "b \<le> a"
  shows "unat (((a div b) - 1) div 2) = (unat a div unat b - 1) div 2"
proof -
  from assms have "a div b \<noteq> 0" by (simp add: word_div_nonzero_iff)
  then have "unat (a div b - 1) = unat (a div b) - 1" by (simp add: unat_minus_one)
  then show ?thesis by (simp add: unat_div)
qed

text \<open>Hence a blocking routine returns once the hardware shows the flag it polls for.\<close>

lemma await_ready:
  assumes "poscsr m (poscsr_reads m + k) AND flag \<noteq> 0"
  shows "\<exists>t. await flag r m = Returns r (m\<lparr>poscsr_reads := t\<rparr>)"
proof -
  from assms wait_poscsr_ready [of "poscsr m" "poscsr_reads m" k flag] obtain t
    where "wait_poscsr (poscsr m) flag (poscsr_reads m) = Some t" by blast
  then show ?thesis by (auto simp: await_def)
qed

text \<open>Conversely the loop ends only if some read shows the flag; on hardware that never
  shows it, the loop does not end.\<close>

lemma wait_poscsr_Some_flag:
  assumes "wait_poscsr rd flag t = Some y"
  shows "\<exists>t'. rd t' AND flag \<noteq> 0"
  by (rule wait_poscsr.raw_induct
        [where P = "\<lambda>rd flag t y. \<exists>t'. rd t' AND flag \<noteq> 0", OF _ assms])
     (auto split: if_splits)

lemma wait_poscsr_never:
  assumes "\<And>t. rd t AND flag = 0"
  shows "wait_poscsr rd flag t = None"
proof (cases "wait_poscsr rd flag t")
  case None
  then show ?thesis .
next
  case (Some y)
  from wait_poscsr_Some_flag [OF this] assms show ?thesis by simp
qed

lemma u32_div_self:
  fixes a :: u32
  assumes "a \<noteq> 0"
  shows "a div a = 1"
proof -
  from assms have "0 < unat a" by (simp add: unat_gt_0)
  then have "unat (a div a) = 1" by (simp add: unat_div)
  then show ?thesis by (simp add: word_unat_eq_iff)
qed

text \<open>
  With a valid source, a channel inside the array, a non-zero source frequency and a
  lock flag inside the status word, \<open>AVR32CLK_StartPLL\<close> writes the four fields and
  then polls.
\<close>

lemma StartPLL_valid:
  assumes "Source = CLOCK_SRC_OSC0 \<or> Source = CLOCK_SRC_OSC1"
    and "unat Channel < length (PLL m)"
    and "SourceFreq \<noteq> 0"
    and "LOCK0_OFFSET + unat Channel < 31"
  shows "AVR32CLK_StartPLL LOCK0_OFFSET Channel Source SourceFreq Frequency m =
    await (push_bit (LOCK0_OFFSET + unat Channel) 1) True
      (m\<lparr>PLL := (PLL m)[unat Channel := (PLL m ! unat Channel)
         \<lparr>pllosc := (if Source = CLOCK_SRC_OSC0 then 0 else 1),
          pllmul := (if Frequency div SourceFreq \<noteq> 0
                     then ((Frequency div SourceFreq) - 1) div 2 else 0),
          plldiv := 0, pllen := True\<rparr>]\<rparr>)"
  using assms
  by (auto simp: AVR32CLK_StartPLL_def PLL_set_def shl1_def clock_src_defs Let_def)

lemma StartPLL_fields:
  assumes "Source = CLOCK_SRC_OSC0 \<or> Source = CLOCK_SRC_OSC1"
    and "unat Channel < length (PLL m)"
    and "SourceFreq \<noteq> 0"
    and "LOCK0_OFFSET + unat Channel < 31"
  shows "\<exists>m'. (AVR32CLK_StartPLL LOCK0_OFFSET Channel Source SourceFreq Frequency m = Returns True m'
               \<or> AVR32CLK_StartPLL LOCK0_OFFSET Channel Source SourceFreq Frequency m = Spins m')
    \<and> pllosc (PLL m' ! unat Channel) = (if Source = CLOCK_SRC_OSC0 then 0 else 1)
    \<and> pllmul (PLL m' ! unat Channel)
        = (if Frequency div SourceFreq \<noteq> 0 then ((Frequency div SourceFreq) - 1) div 2 else 0)
    \<and> plldiv (PLL m' ! unat Channel) = 0
    \<and> pllen (PLL m' ! unat Channel) = True"
proof -
  let ?m4 = "m\<lparr>PLL := (PLL m)[unat Channel := (PLL m ! unat Channel)
         \<lparr>pllosc := (if Source = CLOCK_SRC_OSC0 then 0 else 1),
          pllmul := (if Frequency div SourceFreq \<noteq> 0
                     then ((Frequency div SourceFreq) - 1) div 2 else 0),
          plldiv := 0, pllen := True\<rparr>]\<rparr>"
  let ?lock = "push_bit (LOCK0_OFFSET + unat Channel) 1 :: u32"
  have run: "AVR32CLK_StartPLL LOCK0_OFFSET Channel Source SourceFreq Frequency m
      = await ?lock True ?m4"
    by (rule StartPLL_valid [OF assms])
  from await_cases [of ?lock True ?m4]
  show ?thesis
  proof
    assume "await ?lock True ?m4 = Spins ?m4"
    with run assms(2) show ?thesis by (intro exI [of _ ?m4]) simp
  next
    assume "\<exists>t. await ?lock True ?m4 = Returns True (?m4\<lparr>poscsr_reads := t\<rparr>)"
    then obtain t where "await ?lock True ?m4 = Returns True (?m4\<lparr>poscsr_reads := t\<rparr>)" ..
    with run assms(2) show ?thesis by (intro exI [of _ "?m4\<lparr>poscsr_reads := t\<rparr>"]) simp
  qed
qed

subsection \<open>The CPU clock switch\<close>

text \<open>
  C5. Whatever the source, the call leaves the flash wait-state bit set exactly when
  \<open>SourceFreq\<close> is above 30000000: 30000001 sets it, 30000000 clears it.
\<close>

theorem SetCPUClockSource_wait_state:
  "FCR_fws (snd (AVR32CLK_SetCPUClockSource Source SourceFreq m)) = (30000000 < unat SourceFreq)
   \<and> FCR_fws (snd (AVR32CLK_SetCPUClockSource Source 30000001 m)) = True
   \<and> FCR_fws (snd (AVR32CLK_SetCPUClockSource Source 30000000 m)) = False"
  by (simp add: AVR32CLK_SetCPUClockSource_def Let_def word_less_nat_alt)

theorem SetCPUClockSource_wait_state_witness:
  "FCR_fws (snd (AVR32CLK_SetCPUClockSource CLOCK_SRC_PLL0 48000000 (hw_zero 1 0))) = True
   \<and> FCR_fws (snd (AVR32CLK_SetCPUClockSource CLOCK_SRC_PLL0 12000000 (hw_zero 1 0))) = False"
  using SetCPUClockSource_wait_state [of CLOCK_SRC_PLL0 48000000 "hw_zero 1 0"]
    SetCPUClockSource_wait_state [of CLOCK_SRC_PLL0 12000000 "hw_zero 1 0"]
  by simp

text \<open>
  C4. For a source other than the slow clock, oscillator 0 and PLL 0 the call returns
  \<open>false\<close> and leaves the selector \<open>mcsel\<close> as it was, but the wait-state bit has been
  written from \<open>SourceFreq\<close> and stays written; nothing else has changed.
\<close>

theorem SetCPUClockSource_invalid_source:
  assumes "Source \<noteq> CLOCK_SRC_SLOW_CLK" and "Source \<noteq> CLOCK_SRC_OSC0"
    and "Source \<noteq> CLOCK_SRC_PLL0"
  shows "fst (AVR32CLK_SetCPUClockSource Source SourceFreq m) = False
    \<and> MCCTRL_mcsel (snd (AVR32CLK_SetCPUClockSource Source SourceFreq m)) = MCCTRL_mcsel m
    \<and> FCR_fws (snd (AVR32CLK_SetCPUClockSource Source SourceFreq m))
        = (30000000 < unat SourceFreq)
    \<and> snd (AVR32CLK_SetCPUClockSource Source SourceFreq m)
        = m\<lparr>FCR_fws := (30000000 < unat SourceFreq)\<rparr>"
  using assms by (simp add: AVR32CLK_SetCPUClockSource_def Let_def word_less_nat_alt)

theorem SetCPUClockSource_invalid_source_witness:
  "fst (AVR32CLK_SetCPUClockSource CLOCK_SRC_OSC1 48000000 (hw_zero 1 0)) = False
    \<and> MCCTRL_mcsel (snd (AVR32CLK_SetCPUClockSource CLOCK_SRC_OSC1 48000000 (hw_zero 1 0))) = 0
    \<and> FCR_fws (snd (AVR32CLK_SetCPUClockSource CLOCK_SRC_OSC1 48000000 (hw_zero 1 0))) = True
    \<and> FCR_fws (hw_zero 1 0) = False"
  using SetCPUClockSource_invalid_source [of CLOCK_SRC_OSC1 48000000 "hw_zero 1 0"]
  by (simp add: clock_src_defs hw_zero_def)

subsection \<open>The PLL\<close>

text \<open>
  \<open>AVR32CLK_StartPLL\<close> returns \<open>true\<close> once the hardware shows the lock flag of the
  channel. The call of the usage example, on hardware that locks at the fourth read and
  on hardware that never locks:
\<close>

lemma StartPLL_returns:
  assumes "Source = CLOCK_SRC_OSC0 \<or> Source = CLOCK_SRC_OSC1"
    and "unat Channel < length (PLL m)"
    and "SourceFreq \<noteq> 0"
    and "LOCK0_OFFSET + unat Channel < 31"
    and "poscsr m (poscsr_reads m + k) AND push_bit (LOCK0_OFFSET + unat Channel) 1 \<noteq> 0"
  shows "\<exists>m'. AVR32CLK_StartPLL LOCK0_OFFSET Channel Source SourceFreq Frequency m = Returns True m'"
proof -
  let ?m4 = "m\<lparr>PLL := (PLL m)[unat Channel := (PLL m ! unat Channel)
         \<lparr>pllosc := (if Source = CLOCK_SRC_OSC0 then 0 else 1),
          pllmul := (if Frequency div SourceFreq \<noteq> 0
                     then ((Frequency div SourceFreq) - 1) div 2 else 0),
          plldiv := 0, pllen := True\<rparr>]\<rparr>"
  from assms(5) have "poscsr ?m4 (poscsr_reads ?m4 + k)
      AND push_bit (LOCK0_OFFSET + unat Channel) 1 \<noteq> 0" by simp
  from await_ready [OF this, of True] StartPLL_valid [OF assms(1-4), of Frequency]
  show ?thesis by auto
qed

lemma StartPLL_example:
  "AVR32CLK_StartPLL 0 0 CLOCK_SRC_OSC0 12000000 48000000 (hw_zero 1 3) =
     Returns True
       ((hw_zero 1 3)\<lparr>PLL := [\<lparr>pllosc = 0, pllmul = 1, plldiv = 0, pllen = True\<rparr>,
                               \<lparr>pllosc = 0, pllmul = 0, plldiv = 0, pllen = False\<rparr>],
                      poscsr_reads := 4\<rparr>)"
  by (simp add: AVR32CLK_StartPLL_def PLL_set_def shl1_def await_def wait_poscsr.simps
      clock_src_defs hw_zero_def Let_def)

lemma StartPLL_example_unlocked:
  "AVR32CLK_StartPLL 0 0 CLOCK_SRC_OSC0 12000000 48000000
     ((hw_zero 1 0)\<lparr>poscsr := (\<lambda>t. 0)\<rparr>) =
     Spins
       ((hw_zero 1 0)\<lparr>PLL := [\<lparr>pllosc = 0, pllmul = 1, plldiv = 0, pllen = True\<rparr>,
                               \<lparr>pllosc = 0, pllmul = 0, plldiv = 0, pllen = False\<rparr>],
                      poscsr := (\<lambda>t. 0)\<rparr>)"
  by (simp add: AVR32CLK_StartPLL_def PLL_set_def shl1_def await_def wait_poscsr_never
      clock_src_defs hw_zero_def Let_def)

text \<open>
  C1. For a valid PLL source and a PLL channel, with \<open>0 < SourceFreq \<le> Frequency\<close> the
  multiplier field that \<open>AVR32CLK_StartPLL\<close> writes is
  \<open>((Frequency / SourceFreq) - 1) / 2\<close> in truncating division on the naturals, and with
  \<open>Frequency < SourceFreq\<close> it is 0. The field has the value whether the call returns
  or polls for the lock flag for ever.
\<close>

theorem StartPLL_multiplier:
  assumes "Source = CLOCK_SRC_OSC0 \<or> Source = CLOCK_SRC_OSC1"
    and "unat Channel < length (PLL m)"
    and "LOCK0_OFFSET + unat Channel < 31"
  shows "(0 < SourceFreq \<and> SourceFreq \<le> Frequency \<longrightarrow>
      (\<exists>m'. (AVR32CLK_StartPLL LOCK0_OFFSET Channel Source SourceFreq Frequency m = Returns True m'
             \<or> AVR32CLK_StartPLL LOCK0_OFFSET Channel Source SourceFreq Frequency m = Spins m')
        \<and> unat (pllmul (PLL m' ! unat Channel))
            = (unat Frequency div unat SourceFreq - 1) div 2))
    \<and> (Frequency < SourceFreq \<longrightarrow>
      (\<exists>m'. (AVR32CLK_StartPLL LOCK0_OFFSET Channel Source SourceFreq Frequency m = Returns True m'
             \<or> AVR32CLK_StartPLL LOCK0_OFFSET Channel Source SourceFreq Frequency m = Spins m')
        \<and> pllmul (PLL m' ! unat Channel) = 0))"
proof (intro conjI impI)
  assume le: "0 < SourceFreq \<and> SourceFreq \<le> Frequency"
  then have nz: "SourceFreq \<noteq> 0" by auto
  from le nz have q: "Frequency div SourceFreq \<noteq> 0" by (simp add: word_div_nonzero_iff)
  from StartPLL_fields [OF assms(1,2) nz assms(3), of Frequency] q le nz
  show "\<exists>m'. (AVR32CLK_StartPLL LOCK0_OFFSET Channel Source SourceFreq Frequency m = Returns True m'
             \<or> AVR32CLK_StartPLL LOCK0_OFFSET Channel Source SourceFreq Frequency m = Spins m')
        \<and> unat (pllmul (PLL m' ! unat Channel))
            = (unat Frequency div unat SourceFreq - 1) div 2"
    by (auto simp: pllmul_value)
next
  assume lt: "Frequency < SourceFreq"
  then have nz: "SourceFreq \<noteq> 0" by auto
  from lt nz have q: "Frequency div SourceFreq = 0"
    using word_div_nonzero_iff [of SourceFreq Frequency] by auto
  from StartPLL_fields [OF assms(1,2) nz assms(3), of Frequency] q
  show "\<exists>m'. (AVR32CLK_StartPLL LOCK0_OFFSET Channel Source SourceFreq Frequency m = Returns True m'
             \<or> AVR32CLK_StartPLL LOCK0_OFFSET Channel Source SourceFreq Frequency m = Spins m')
        \<and> pllmul (PLL m' ! unat Channel) = 0"
    by auto
qed

theorem StartPLL_multiplier_witness:
  "(\<exists>m'. (AVR32CLK_StartPLL 0 1 CLOCK_SRC_OSC0 12000000 48000000 (hw_zero 1 0) = Returns True m'
          \<or> AVR32CLK_StartPLL 0 1 CLOCK_SRC_OSC0 12000000 48000000 (hw_zero 1 0) = Spins m')
        \<and> unat (pllmul (PLL m' ! 1)) = 1)
   \<and> (\<exists>m'. (AVR32CLK_StartPLL 0 1 CLOCK_SRC_OSC0 48000000 12000000 (hw_zero 1 0) = Returns True m'
          \<or> AVR32CLK_StartPLL 0 1 CLOCK_SRC_OSC0 48000000 12000000 (hw_zero 1 0) = Spins m')
        \<and> pllmul (PLL m' ! 1) = 0)"
  using StartPLL_multiplier [of CLOCK_SRC_OSC0 1 "hw_zero 1 0" 0 12000000 48000000]
    StartPLL_multiplier [of CLOCK_SRC_OSC0 1 "hw_zero 1 0" 0 48000000 12000000]
  by (simp add: hw_zero_def)

text \<open>
  C10. \<open>AVR32CLK_StartPLL\<close> never checks \<open>Channel\<close>. With a valid source and the
  two-element array, a channel below 2 has its \<open>pllosc\<close>, \<open>pllmul\<close>, \<open>plldiv\<close> and
  \<open>pllen\<close> fields written; the call accesses \<open>PLL[Channel]\<close> outside the array exactly
  when \<open>Channel\<close> is 2 or more; and for no channel does the call return \<open>false\<close>.
\<close>

theorem StartPLL_no_channel_validation:
  assumes "Source = CLOCK_SRC_OSC0 \<or> Source = CLOCK_SRC_OSC1"
    and "length (PLL m) = 2"
  shows "(unat Channel < 2 \<and> SourceFreq \<noteq> 0 \<and> LOCK0_OFFSET + unat Channel < 31 \<longrightarrow>
      (\<exists>m'. (AVR32CLK_StartPLL LOCK0_OFFSET Channel Source SourceFreq Frequency m = Returns True m'
             \<or> AVR32CLK_StartPLL LOCK0_OFFSET Channel Source SourceFreq Frequency m = Spins m')
        \<and> pllosc (PLL m' ! unat Channel) = (if Source = CLOCK_SRC_OSC0 then 0 else 1)
        \<and> pllmul (PLL m' ! unat Channel)
            = (if Frequency div SourceFreq \<noteq> 0 then ((Frequency div SourceFreq) - 1) div 2 else 0)
        \<and> plldiv (PLL m' ! unat Channel) = 0
        \<and> pllen (PLL m' ! unat Channel) = True))
    \<and> ((AVR32CLK_StartPLL LOCK0_OFFSET Channel Source SourceFreq Frequency m = Undefined OutOfBounds)
         = (2 \<le> unat Channel))
    \<and> (\<forall>m'. AVR32CLK_StartPLL LOCK0_OFFSET Channel Source SourceFreq Frequency m \<noteq> Returns False m')"
proof (intro conjI impI allI)
  assume a: "unat Channel < 2 \<and> SourceFreq \<noteq> 0 \<and> LOCK0_OFFSET + unat Channel < 31"
  with assms(2) have r: "unat Channel < length (PLL m)" by simp
  from a show "\<exists>m'. (AVR32CLK_StartPLL LOCK0_OFFSET Channel Source SourceFreq Frequency m = Returns True m'
             \<or> AVR32CLK_StartPLL LOCK0_OFFSET Channel Source SourceFreq Frequency m = Spins m')
        \<and> pllosc (PLL m' ! unat Channel) = (if Source = CLOCK_SRC_OSC0 then 0 else 1)
        \<and> pllmul (PLL m' ! unat Channel)
            = (if Frequency div SourceFreq \<noteq> 0 then ((Frequency div SourceFreq) - 1) div 2 else 0)
        \<and> plldiv (PLL m' ! unat Channel) = 0
        \<and> pllen (PLL m' ! unat Channel) = True"
    by (intro StartPLL_fields [OF assms(1) r]) simp_all
next
  show "(AVR32CLK_StartPLL LOCK0_OFFSET Channel Source SourceFreq Frequency m = Undefined OutOfBounds)
         = (2 \<le> unat Channel)"
    using assms
    by (auto simp: AVR32CLK_StartPLL_def await_def shl1_def clock_src_defs Let_def
        split: option.splits)
next
  fix m'
  show "AVR32CLK_StartPLL LOCK0_OFFSET Channel Source SourceFreq Frequency m \<noteq> Returns False m'"
    using assms
    by (auto simp: AVR32CLK_StartPLL_def await_def shl1_def clock_src_defs Let_def
        split: option.splits)
qed

theorem StartPLL_no_channel_validation_witness:
  "(\<exists>m'. (AVR32CLK_StartPLL 0 1 CLOCK_SRC_OSC1 12000000 48000000 (hw_zero 1 0) = Returns True m'
          \<or> AVR32CLK_StartPLL 0 1 CLOCK_SRC_OSC1 12000000 48000000 (hw_zero 1 0) = Spins m')
        \<and> pllosc (PLL m' ! 1) = 1 \<and> pllmul (PLL m' ! 1) = 1
        \<and> plldiv (PLL m' ! 1) = 0 \<and> pllen (PLL m' ! 1) = True)
   \<and> AVR32CLK_StartPLL 0 2 CLOCK_SRC_OSC1 12000000 48000000 (hw_zero 1 0) = Undefined OutOfBounds
   \<and> AVR32CLK_StartPLL 0 2 CLOCK_SRC_OSC1 12000000 48000000 (hw_zero 1 0) \<noteq> Returns False (hw_zero 1 0)"
  using StartPLL_no_channel_validation [of CLOCK_SRC_OSC1 "hw_zero 1 0" 1 12000000 0 48000000]
    StartPLL_no_channel_validation [of CLOCK_SRC_OSC1 "hw_zero 1 0" 2 12000000 0 48000000]
  by (simp add: hw_zero_def clock_src_defs)

subsection \<open>The generic clocks\<close>

text \<open>
  C2, as the code has it. With a valid source, a generic clock channel and
  \<open>SourceFreq < Frequency\<close> the call returns \<open>false\<close> and leaves the channel's
  \<open>diven\<close>, \<open>div\<close> and \<open>cen\<close> fields, every other channel and every other register as
  they were; the selector fields \<open>pllsel\<close> and \<open>oscsel\<close> of the channel have been
  written from \<open>Source\<close>, since the switch on the source precedes the frequency check.
\<close>

theorem StartGenericClock_low_source:
  assumes "Source \<in> {CLOCK_SRC_OSC0, CLOCK_SRC_OSC1, CLOCK_SRC_PLL0, CLOCK_SRC_PLL1}"
    and "unat Channel < length (GCCTRL m)"
    and "SourceFreq < Frequency"
  shows "\<exists>m'. AVR32CLK_StartGenericClock Channel Source SourceFreq Frequency m = Inr (False, m')
    \<and> diven (GCCTRL m' ! unat Channel) = diven (GCCTRL m ! unat Channel)
    \<and> gc_div (GCCTRL m' ! unat Channel) = gc_div (GCCTRL m ! unat Channel)
    \<and> cen (GCCTRL m' ! unat Channel) = cen (GCCTRL m ! unat Channel)
    \<and> pllsel (GCCTRL m' ! unat Channel)
        = (if Source = CLOCK_SRC_PLL0 \<or> Source = CLOCK_SRC_PLL1 then 1 else 0)
    \<and> oscsel (GCCTRL m' ! unat Channel)
        = (if Source = CLOCK_SRC_OSC1 \<or> Source = CLOCK_SRC_PLL1 then 1 else 0)
    \<and> length (GCCTRL m') = length (GCCTRL m)
    \<and> (\<forall>i. i \<noteq> unat Channel \<longrightarrow> GCCTRL m' ! i = GCCTRL m ! i)
    \<and> m'\<lparr>GCCTRL := GCCTRL m\<rparr> = m"
  using assms
  by (auto simp: AVR32CLK_StartGenericClock_def GCCTRL_set_def clock_src_defs Let_def)

theorem StartGenericClock_low_source_witness:
  "\<exists>m'. AVR32CLK_StartGenericClock 0 CLOCK_SRC_PLL1 12000000 48000000 (hw_zero 1 0) = Inr (False, m')
    \<and> diven (GCCTRL m' ! 0) = False \<and> gc_div (GCCTRL m' ! 0) = 0 \<and> cen (GCCTRL m' ! 0) = False
    \<and> pllsel (GCCTRL m' ! 0) = 1 \<and> oscsel (GCCTRL m' ! 0) = 1"
  using StartGenericClock_low_source [of CLOCK_SRC_PLL1 0 "hw_zero 1 0" 12000000 48000000]
  by (auto simp: clock_src_defs hw_zero_def)

text \<open>
  C2, as stated, fails: on channel 0 of the zero state, source PLL 1 with 12 MHz for
  a 48 MHz target returns \<open>false\<close> but has changed \<open>pllsel\<close> from 0 to 1.
\<close>

theorem StartGenericClock_low_source_counterexample:
  "AVR32CLK_StartGenericClock 0 CLOCK_SRC_PLL1 12000000 48000000 (hw_zero 1 0)
     \<noteq> Inr (False, hw_zero 1 0)
   \<and> \<not> isl (AVR32CLK_StartGenericClock 0 CLOCK_SRC_PLL1 12000000 48000000 (hw_zero 1 0))
   \<and> fst (projr (AVR32CLK_StartGenericClock 0 CLOCK_SRC_PLL1 12000000 48000000 (hw_zero 1 0))) = False
   \<and> pllsel (GCCTRL (hw_zero 1 0) ! 0) = 0
   \<and> pllsel (GCCTRL (snd (projr
        (AVR32CLK_StartGenericClock 0 CLOCK_SRC_PLL1 12000000 48000000 (hw_zero 1 0)))) ! 0) = 1"
  by (simp add: AVR32CLK_StartGenericClock_def GCCTRL_set_def clock_src_defs hw_zero_def Let_def)

text \<open>
  C9. The frequency check does not exclude \<open>Frequency = 0\<close>: with a valid source and a
  generic clock channel the call divides by zero for every \<open>SourceFreq\<close> when
  \<open>Frequency = 0\<close>, and it divides by zero only then.
\<close>

theorem StartGenericClock_division_by_zero:
  assumes "Source \<in> {CLOCK_SRC_OSC0, CLOCK_SRC_OSC1, CLOCK_SRC_PLL0, CLOCK_SRC_PLL1}"
    and "unat Channel < length (GCCTRL m)"
  shows "AVR32CLK_StartGenericClock Channel Source SourceFreq 0 m = Inl DivisionByZero
    \<and> ((AVR32CLK_StartGenericClock Channel Source SourceFreq Frequency m = Inl DivisionByZero)
         = (Frequency = 0))"
  using assms
  by (auto simp: AVR32CLK_StartGenericClock_def clock_src_defs Let_def word_gt_0)

theorem StartGenericClock_division_by_zero_witness:
  "AVR32CLK_StartGenericClock 0 CLOCK_SRC_PLL0 48000000 0 (hw_zero 1 0) = Inl DivisionByZero
   \<and> AVR32CLK_StartGenericClock 0 CLOCK_SRC_PLL0 48000000 12000000 (hw_zero 1 0) \<noteq> Inl DivisionByZero"
  using StartGenericClock_division_by_zero [of CLOCK_SRC_PLL0 0 "hw_zero 1 0" 48000000 12000000]
  by (simp add: clock_src_defs hw_zero_def)

text \<open>
  Equal non-zero frequencies: the call succeeds, with the divider disabled, the divider
  field zero and the clock enabled.
\<close>

lemma StartGenericClock_equal_freq:
  assumes "Source \<in> {CLOCK_SRC_OSC0, CLOCK_SRC_OSC1, CLOCK_SRC_PLL0, CLOCK_SRC_PLL1}"
    and "unat Channel < length (GCCTRL m)"
    and "Frequency \<noteq> 0"
  shows "\<exists>m'. AVR32CLK_StartGenericClock Channel Source Frequency Frequency m = Inr (True, m')
    \<and> diven (GCCTRL m' ! unat Channel) = False
    \<and> gc_div (GCCTRL m' ! unat Channel) = 0
    \<and> cen (GCCTRL m' ! unat Channel) = True"
  using assms
  by (auto simp: AVR32CLK_StartGenericClock_def GCCTRL_set_def clock_src_defs Let_def u32_div_self)

text \<open>
  C7, at equal frequencies that are both zero: \<open>SourceFreq / Frequency\<close> is a division
  by zero, the call does not succeed.
\<close>

theorem StartGenericClock_equal_zero_freq:
  "AVR32CLK_StartGenericClock 0 CLOCK_SRC_OSC0 0 0 (hw_zero 1 0) = Inl DivisionByZero"
  by (simp add: AVR32CLK_StartGenericClock_def clock_src_defs hw_zero_def Let_def)

text \<open>
  C8, as the code has it. For a channel index inside the generic clock array,
  \<open>AVR32CLK_StopGenericClock\<close> clears the channel's \<open>cen\<close> field and leaves its
  \<open>pllsel\<close>, \<open>oscsel\<close>, \<open>diven\<close> and \<open>div\<close> fields, every other channel and every
  other register as they were. The index is not checked, like the index of the other
  two Stop routines.
\<close>

theorem StopGenericClock_frame:
  assumes "unat Channel < length (GCCTRL m)"
  shows "\<exists>m'. AVR32CLK_StopGenericClock Channel m = Inr m'
    \<and> cen (GCCTRL m' ! unat Channel) = False
    \<and> pllsel (GCCTRL m' ! unat Channel) = pllsel (GCCTRL m ! unat Channel)
    \<and> oscsel (GCCTRL m' ! unat Channel) = oscsel (GCCTRL m ! unat Channel)
    \<and> diven (GCCTRL m' ! unat Channel) = diven (GCCTRL m ! unat Channel)
    \<and> gc_div (GCCTRL m' ! unat Channel) = gc_div (GCCTRL m ! unat Channel)
    \<and> length (GCCTRL m') = length (GCCTRL m)
    \<and> (\<forall>i. i \<noteq> unat Channel \<longrightarrow> GCCTRL m' ! i = GCCTRL m ! i)
    \<and> m'\<lparr>GCCTRL := GCCTRL m\<rparr> = m"
  using assms by (simp add: AVR32CLK_StopGenericClock_def GCCTRL_set_def)

theorem StopGenericClock_frame_witness:
  "\<exists>m'. AVR32CLK_StopGenericClock 0
           (snd (projr (AVR32CLK_StartGenericClock 0 CLOCK_SRC_PLL1 48000000 12000000 (hw_zero 1 0))))
         = Inr m'
    \<and> cen (GCCTRL (snd (projr (AVR32CLK_StartGenericClock 0 CLOCK_SRC_PLL1 48000000 12000000 (hw_zero 1 0)))) ! 0) = True
    \<and> cen (GCCTRL m' ! 0) = False
    \<and> pllsel (GCCTRL m' ! 0) = 1
    \<and> oscsel (GCCTRL m' ! 0) = 1
    \<and> diven (GCCTRL m' ! 0) = True
    \<and> gc_div (GCCTRL m' ! 0) = 1"
  using StopGenericClock_frame [of 0
    "snd (projr (AVR32CLK_StartGenericClock 0 CLOCK_SRC_PLL1 48000000 12000000 (hw_zero 1 0)))"]
  by (auto simp: AVR32CLK_StartGenericClock_def GCCTRL_set_def clock_src_defs hw_zero_def Let_def)

text \<open>
  C8, as stated for every channel index, fails: with six generic clock channels the
  index 200 makes the assignment to \<open>GCCTRL[Channel].cen\<close> an access outside the
  array, so the call does not complete with only an enable bit cleared.
\<close>

theorem StopGenericClock_beyond_array_counterexample:
  "AVR32CLK_StopGenericClock 200 (hw_zero 6 0) = Inl OutOfBounds"
  by (simp add: AVR32CLK_StopGenericClock_def hw_zero_def)

subsection \<open>The external oscillators\<close>

text \<open>
  For channel 0 or 1 \<open>AVR32CLK_StartExternalOscillator\<close> writes the supplied startup and
  mode values to that channel's control register, leaves the other channel's control
  register alone and sets bit \<open>OSC0EN_OFFSET + Channel\<close> of \<open>mcctrl\<close>, whether it then
  returns or polls for ever.
\<close>

lemma StartExternalOscillator_valid_channel:
  assumes "Channel = 0 \<or> Channel = 1"
    and "OSC0EN_OFFSET + unat Channel < 31"
    and "OSC0RDY_OFFSET + unat Channel < 31"
  shows "\<exists>m'. (AVR32CLK_StartExternalOscillator OSC0EN_OFFSET OSC0RDY_OFFSET Channel Type Startup m
                 = Returns () m'
               \<or> AVR32CLK_StartExternalOscillator OSC0EN_OFFSET OSC0RDY_OFFSET Channel Type Startup m
                 = Spins m')
    \<and> (if Channel = 0 then OSCCTRL0 m' else OSCCTRL1 m')
        = \<lparr>startup = ucast Startup, mode = ucast Type\<rparr>
    \<and> (if Channel = 0 then OSCCTRL1 m' = OSCCTRL1 m else OSCCTRL0 m' = OSCCTRL0 m)
    \<and> (\<forall>k. bit (mcctrl m') k = (bit (mcctrl m) k \<or> k = OSC0EN_OFFSET + unat Channel))"
proof -
  let ?m1 = "if Channel = 0
    then m\<lparr>OSCCTRL0 := (OSCCTRL0 m)\<lparr>startup := ucast Startup, mode := ucast Type\<rparr>\<rparr>
    else m\<lparr>OSCCTRL1 := (OSCCTRL1 m)\<lparr>startup := ucast Startup, mode := ucast Type\<rparr>\<rparr>"
  let ?m2 = "?m1\<lparr>mcctrl := mcctrl ?m1 OR push_bit (OSC0EN_OFFSET + unat Channel) 1\<rparr>"
  let ?rdy = "push_bit (OSC0RDY_OFFSET + unat Channel) 1 :: u32"
  have run: "AVR32CLK_StartExternalOscillator OSC0EN_OFFSET OSC0RDY_OFFSET Channel Type Startup m
      = await ?rdy () ?m2"
    using assms by (auto simp: AVR32CLK_StartExternalOscillator_def shl1_def)
  have bits: "\<forall>k. bit (mcctrl ?m2) k = (bit (mcctrl m) k \<or> k = OSC0EN_OFFSET + unat Channel)"
    using assms(2) by (auto simp: bit_simps)
  from await_cases [of ?rdy "()" ?m2]
  show ?thesis
  proof
    assume "await ?rdy () ?m2 = Spins ?m2"
    with run bits show ?thesis by (intro exI [of _ ?m2]) simp
  next
    assume "\<exists>t. await ?rdy () ?m2 = Returns () (?m2\<lparr>poscsr_reads := t\<rparr>)"
    then obtain t where "await ?rdy () ?m2 = Returns () (?m2\<lparr>poscsr_reads := t\<rparr>)" ..
    with run bits show ?thesis
      by (intro exI [of _ "?m2\<lparr>poscsr_reads := t\<rparr>"]) simp
  qed
qed

text \<open>
  C3, at the channel index 2: no register is written, and the call returns as it does
  for a started oscillator, with no value. The function is declared \<open>void\<close>, so the
  \<open>false\<close> of its \<open>return false;\<close> does not reach the caller.
\<close>

theorem StartExternalOscillator_invalid_channel:
  "AVR32CLK_StartExternalOscillator OSC0EN_OFFSET OSC0RDY_OFFSET 2 Type Startup m = Returns () m"
  by (simp add: AVR32CLK_StartExternalOscillator_def)

text \<open>
  C6, as the code has it. \<open>AVR32CLK_StopExternalOscillator\<close> returns nothing and has
  no failure path. For every channel index, in \<open>{0,1}\<close> or not, whose bit position
  \<open>OSC0EN_OFFSET + Channel\<close> is below 31, it clears that bit of \<open>mcctrl\<close> and changes
  no other bit and no other register; it does not read the status register.
\<close>

theorem StopExternalOscillator_clears_bit:
  assumes "OSC0EN_OFFSET + unat Channel < 31"
  shows "\<exists>m'. AVR32CLK_StopExternalOscillator OSC0EN_OFFSET Channel m = Inr m'
    \<and> (\<forall>k. bit (mcctrl m') k = (bit (mcctrl m) k \<and> k \<noteq> OSC0EN_OFFSET + unat Channel))
    \<and> m'\<lparr>mcctrl := mcctrl m\<rparr> = m"
  using assms
  by (auto simp: AVR32CLK_StopExternalOscillator_def shl1_def bit_simps dest: bit_imp_le_length)

theorem StopExternalOscillator_clears_bit_witness:
  "\<exists>m'. AVR32CLK_StopExternalOscillator 2 1 (hw_mcctrl 12) = Inr m'
    \<and> mcctrl m' = 4 \<and> m'\<lparr>mcctrl := 12\<rparr> = hw_mcctrl 12"
  using StopExternalOscillator_clears_bit [of 2 1 "hw_mcctrl 12"]
  by (auto simp: hw_mcctrl_def hw_zero_def AVR32CLK_StopExternalOscillator_def shl1_def)

text \<open>
  C6, as stated, fails: with the enable bits at offset 2, stopping channel 2 completes
  normally and clears bit 4 of \<open>mcctrl\<close>.
\<close>

theorem StopExternalOscillator_invalid_channel_counterexample:
  "AVR32CLK_StopExternalOscillator 2 2 (hw_mcctrl 16) = Inr (hw_mcctrl 0)
   \<and> hw_mcctrl 16 \<noteq> hw_mcctrl 0"
  by (simp add: AVR32CLK_StopExternalOscillator_def shl1_def hw_mcctrl_def hw_zero_def)

end
